theory Spec2Isabelle
  imports Main "HOL-Library.Word" "HOL-Library.Sublist"
begin

section \<open>The adapter layer of libpod: pkg/adapter/containers.go\<close>

text \<open>
  The functions of \<^verbatim>\<open>containers.go\<close> (batch stop, kill and wait, log streaming, create,
  run and the exit-file reader) are embedded as HOL functions. Everything the adapter
  calls in other packages (the libpod runtime, \<^verbatim>\<open>shortcuts\<close>, \<^verbatim>\<open>shared\<close>, the
  operating system) is a field of the record \<open>engine\<close>: an arbitrary function on an
  engine state \<open>'s\<close>. Every such call, every line printed and every logrus call is
  appended to a trace, so that what the adapter did can be read off the result.
\<close>

subsection \<open>Machine integers\<close>

type_synonym go_uint = "64 word"    \<comment> \<open>Go's uint and uint64 on a 64-bit platform\<close>
type_synonym go_int32 = "32 word"   \<comment> \<open>int32, read with sint\<close>
type_synonym duration = "64 word"   \<comment> \<open>time.Duration, an int64\<close>

subsection \<open>Errors\<close>

text \<open>
  A Go error is either one of libpod's sentinel values, compared by identity after
  \<^verbatim>\<open>errors.Cause\<close>, or some other root error with its message, or an error wrapped
  by \<^verbatim>\<open>errors.Wrapf\<close>, which keeps the wrapped error and the rendered message.
\<close>

datatype error =
    ErrCtrStopped
  | ErrNoSuchCtr
  | ErrDetach
  | ErrInvalidArg
  | New string
  | Wrapf error string

fun Cause :: "error \<Rightarrow> error" where
  "Cause (Wrapf e m) = Cause e"
| "Cause e = e"

text \<open>
  \<^verbatim>\<open>err.Error()\<close>. The texts of the four sentinels are those of libpod/errors.go,
  which is outside the files embedded here.
\<close>

fun Error :: "error \<Rightarrow> string" where
  "Error ErrCtrStopped = ''container is stopped''"
| "Error ErrNoSuchCtr = ''no such container''"
| "Error ErrDetach = ''detached from container''"
| "Error ErrInvalidArg = ''invalid argument''"
| "Error (New m) = m"
| "Error (Wrapf e m) = m @ '': '' @ Error e"

subsection \<open>Functions of the Go standard library\<close>

text \<open>\<^verbatim>\<open>strings.Index(s, substr)\<close>: the first position of substr in s, or -1.\<close>

fun strings_Index :: "string \<Rightarrow> string \<Rightarrow> int" where
  "strings_Index [] substr = (if substr = [] then 0 else -1)"
| "strings_Index (c # cs) substr =
     (if prefix substr (c # cs) then 0
      else (let i = strings_Index cs substr in if i < 0 then -1 else i + 1))"

text \<open>
  \<^verbatim>\<open>strings.ToLower\<close> on the bytes of a string. ASCII capitals are lowered. Two
  runes outside ASCII have an ASCII lower case in Go's tables and are mapped to it:
  U+0130 (bytes C4 B0) to i and U+212A (bytes E2 84 AA) to k. Every other byte is kept:
  Go maps the remaining runes to runes outside ASCII, so whether the result equals an
  all-ASCII word is the same here and there.
\<close>

definition is_upper :: "char \<Rightarrow> bool" where
  "is_upper c = (65 \<le> (of_char c :: nat) \<and> (of_char c :: nat) \<le> 90)"

fun strings_ToLower :: "string \<Rightarrow> string" where
  "strings_ToLower [] = []"
| "strings_ToLower (c # cs) =
     (if is_upper c then char_of ((of_char c :: nat) + 32) # strings_ToLower cs
      else if c = CHR 0xC4 \<and> take 1 cs = [CHR 0xB0] then CHR ''i'' # strings_ToLower (drop 1 cs)
      else if c = CHR 0xE2 \<and> take 2 cs = [CHR 0x84, CHR 0xAA] then CHR ''k'' # strings_ToLower (drop 2 cs)
      else c # strings_ToLower cs)"

text \<open>\<^verbatim>\<open>strconv.Itoa\<close>: the decimal text of an integer.\<close>

fun nat_digits :: "nat \<Rightarrow> string" where
  "nat_digits n =
     (if n < 10 then [''0123456789'' ! n]
      else nat_digits (n div 10) @ [''0123456789'' ! (n mod 10)])"

declare nat_digits.simps [simp del]

definition strconv_Itoa :: "int \<Rightarrow> string" where
  "strconv_Itoa i = (if i < 0 then CHR ''-'' # nat_digits (nat (- i)) else nat_digits (nat i))"

text \<open>
  \<^verbatim>\<open>strconv.Atoi\<close> for a 64-bit int. \<open>ParseUint_loop\<close> is the digit loop of
  \<^verbatim>\<open>strconv.ParseUint(s, 10, 64)\<close>: it reads from the left and stops at the first byte
  that is not a digit (a syntax error) or at the first overflow of 64 bits (a range
  error). The text of a \<^verbatim>\<open>*NumError\<close> quotes the input with \<^verbatim>\<open>strconv.Quote\<close>, which
  is a parameter \<open>quote\<close> here.
\<close>

datatype num_result = Parsed nat | SyntaxError | RangeError

definition is_digit :: "char \<Rightarrow> bool" where
  "is_digit c = (48 \<le> (of_char c :: nat) \<and> (of_char c :: nat) \<le> 57)"

fun ParseUint_loop :: "string \<Rightarrow> nat \<Rightarrow> num_result" where
  "ParseUint_loop [] n = Parsed n"
| "ParseUint_loop (c # cs) n =
     (if \<not> is_digit c then SyntaxError
      else if n \<ge> (2 ^ 64 - 1) div 10 + 1 then RangeError
      else (let n1 = n * 10 + ((of_char c :: nat) - 48) in
            if n1 > 2 ^ 64 - 1 then RangeError else ParseUint_loop cs n1))"

definition ParseUint :: "string \<Rightarrow> num_result" where
  "ParseUint s = (if s = [] then SyntaxError else ParseUint_loop s 0)"

definition NumError :: "(string \<Rightarrow> string) \<Rightarrow> string \<Rightarrow> string \<Rightarrow> error" where
  "NumError quote s reason = New (''strconv.Atoi: parsing '' @ quote s @ '': '' @ reason)"

definition strconv_Atoi :: "(string \<Rightarrow> string) \<Rightarrow> string \<Rightarrow> int \<times> error option" where
  "strconv_Atoi quote s =
     (if s = [] then (0, Some (NumError quote s ''invalid syntax''))
      else
        (let neg = (hd s = CHR ''-'');
             body = (if hd s = CHR ''+'' \<or> hd s = CHR ''-'' then tl s else s)
         in case ParseUint body of
              SyntaxError \<Rightarrow> (0, Some (NumError quote s ''invalid syntax''))
            | RangeError \<Rightarrow>
                ((if neg then - (2 ^ 63) else 2 ^ 63 - 1),
                 Some (NumError quote s ''value out of range''))
            | Parsed un \<Rightarrow>
                if \<not> neg \<and> un \<ge> 2 ^ 63 then
                  (2 ^ 63 - 1, Some (NumError quote s ''value out of range''))
                else if neg \<and> un > 2 ^ 63 then
                  (- (2 ^ 63), Some (NumError quote s ''value out of range''))
                else ((if neg then - int un else int un), None)))"

text \<open>
  \<^verbatim>\<open>filepath.Join\<close> on Unix: the elements from the first non-empty one on are joined
  with slashes and the result is cleaned by \<^verbatim>\<open>filepath.Clean\<close>. Clean works on the
  elements between slashes: empty elements and \<^verbatim>\<open>.\<close> are dropped, \<^verbatim>\<open>..\<close> removes the
  element before it, is dropped at the root, and is kept at the start of a relative path.
\<close>

fun split_slash :: "string \<Rightarrow> string \<Rightarrow> string list" where
  "split_slash [] cur = [cur]"
| "split_slash (c # cs) cur =
     (if c = CHR ''/'' then cur # split_slash cs [] else split_slash cs (cur @ [c]))"

fun Clean_elems :: "bool \<Rightarrow> string list \<Rightarrow> string list \<Rightarrow> string list" where
  "Clean_elems rooted [] out = out"
| "Clean_elems rooted (e # es) out =
     (if e = [] \<or> e = ''.'' then Clean_elems rooted es out
      else if e = ''..'' then
        (if out \<noteq> [] \<and> last out \<noteq> ''..'' then Clean_elems rooted es (butlast out)
         else if \<not> rooted then Clean_elems rooted es (out @ [''..''])
         else Clean_elems rooted es out)
      else Clean_elems rooted es (out @ [e]))"

fun join_slash :: "string list \<Rightarrow> string" where
  "join_slash [] = []"
| "join_slash [e] = e"
| "join_slash (e # es) = e @ ''/'' @ join_slash es"

definition filepath_Clean :: "string \<Rightarrow> string" where
  "filepath_Clean path =
     (if path = [] then ''.''
      else
        (let rooted = (hd path = CHR ''/'');
             out = join_slash (Clean_elems rooted (split_slash path []) [])
         in if rooted then CHR ''/'' # out else if out = [] then ''.'' else out))"

definition filepath_Join :: "string list \<Rightarrow> string" where
  "filepath_Join elem =
     (case dropWhile (\<lambda>e. e = []) elem of
        [] \<Rightarrow> []
      | es \<Rightarrow> filepath_Clean (join_slash es))"

subsection \<open>Containers, events and the engine\<close>

text \<open>
  A container handle. \<^verbatim>\<open>c.ID()\<close> and \<^verbatim>\<open>c.StopTimeout()\<close> read the container's
  configuration, which does not change.
\<close>

record container =
  ID :: string
  StopTimeout :: go_uint

datatype level = PanicLevel | FatalLevel | ErrorLevel | WarnLevel | InfoLevel | DebugLevel

datatype arg = Str string | Num int | Err error

datatype stream = Stdin | Stdout | Stderr

record createConfig =
  Detach :: bool

record RuntimeConfig =
  TmpDir :: string

text \<open>
  What the adapter does to the world, in order. A call of a collaborator is recorded
  with its arguments and its result; \<open>Print\<close> is a write to standard output; \<open>Logrus\<close> is
  a call of \<^verbatim>\<open>logrus.Debugf\<close> or \<^verbatim>\<open>logrus.Errorf\<close> with its format and arguments.
\<close>

datatype event =
    EvGetContainersByContext bool bool "string list" "container list \<times> error option"
  | EvStopWithTimeout container go_uint "error option"
  | EvKill container go_uint "error option"
  | EvWaitWithInterval container duration "go_int32 \<times> error option"
  | EvCreateContainer "container option \<times> createConfig option \<times> error option"
  | EvCGroupPath container "string \<times> error option"
  | EvStart container bool "error option"
  | EvStartAttachCtr "container option" "stream option" "stream option" "stream option"
      string bool bool bool "error option"
  | EvWait container "go_int32 \<times> error option"
  | EvGetConfig "RuntimeConfig option \<times> error option"
  | EvRemoveContainer "container option" bool bool "error option"
  | EvStat string "error option"
  | EvReadFile string "string \<times> error option"
  | EvMakeChan int
  | EvRuntimeLog "container list" bool "string list \<times> error option"
  | Print string
  | Logrus level string "arg list"

record 's world =
  state :: 's
  trace :: "event list"

definition call :: "('s \<Rightarrow> 'r \<times> 's) \<Rightarrow> ('r \<Rightarrow> event) \<Rightarrow> 's world \<Rightarrow> 'r \<times> 's world" where
  "call f ev w = (case f (state w) of (r, s') \<Rightarrow> (r, \<lparr>state = s', trace = trace w @ [ev r]\<rparr>))"

definition emit :: "event \<Rightarrow> 's world \<Rightarrow> 's world" where
  "emit ev w = w\<lparr>trace := trace w @ [ev]\<rparr>"

subsection \<open>Command-line values\<close>

text \<open>
  The structs of cmd/podman/cliconfig, as far as the adapter reads them. The flag
  accessors of a command are functions of the flag's name.
\<close>

record PodmanCommand =
  InputArgs :: "string list"
  Changed :: "string \<Rightarrow> bool"        \<comment> \<open>\<^verbatim>\<open>Flags().Changed(name)\<close>\<close>
  IsSet :: "string \<Rightarrow> bool"
  Bool_flag :: "string \<Rightarrow> bool"      \<comment> \<open>\<^verbatim>\<open>c.Bool(name)\<close>\<close>
  String_flag :: "string \<Rightarrow> string"  \<comment> \<open>\<^verbatim>\<open>c.String(name)\<close>\<close>
  StringSlice :: "string \<Rightarrow> string list"

record StopValues = PodmanCommand +
  stop_All :: bool
  stop_Latest :: bool
  Timeout :: go_uint

record KillValues = PodmanCommand +
  kill_All :: bool
  kill_Latest :: bool

text \<open>
  Modelled from the spec: the declaration of \<^verbatim>\<open>cliconfig.WaitValues\<close> is not among the
  embedded files. The spec's Selection Request is one of an explicit list, the
  all-containers flag and the latest flag, so the wait request carries all three;
  \<open>WaitOnContainers\<close> below reads \<open>wait_Latest\<close> and \<open>InputArgs\<close> only.
\<close>

record WaitValues = PodmanCommand +
  wait_All :: bool
  wait_Latest :: bool

text \<open>\<^verbatim>\<open>Tail\<close> is a uint64 in cliconfig; \<^verbatim>\<open>int(c.Tail)\<close> reads its 64 bits as signed.\<close>

record LogsValues = PodmanCommand +
  Tail :: "64 word"
  logs_Latest :: bool


subsection \<open>The collaborators\<close>

text \<open>
  One field for each function that the adapter calls outside \<^verbatim>\<open>containers.go\<close>. A
  function that can change the world takes the engine state and returns its Go results
  with the new state; a Go result \<^verbatim>\<open>(x, err)\<close> is a pair whose error is \<open>None\<close> for nil,
  and a pointer result is an option, \<open>None\<close> for nil. \<open>Runtime_Log\<close> takes the value of
  \<^verbatim>\<open>options.Multi\<close>; \<open>strconv_Quote\<close> is the quoting of \<^verbatim>\<open>%q\<close>.
\<close>

record 's engine =
  GetContainersByContext ::
    "bool \<Rightarrow> bool \<Rightarrow> string list \<Rightarrow> 's \<Rightarrow> (container list \<times> error option) \<times> 's"
  StopWithTimeout :: "container \<Rightarrow> go_uint \<Rightarrow> 's \<Rightarrow> error option \<times> 's"
  Kill :: "container \<Rightarrow> go_uint \<Rightarrow> 's \<Rightarrow> error option \<times> 's"
  WaitWithInterval :: "container \<Rightarrow> duration \<Rightarrow> 's \<Rightarrow> (go_int32 \<times> error option) \<times> 's"
  shared_CreateContainer ::
    "PodmanCommand \<Rightarrow> 's \<Rightarrow> (container option \<times> createConfig option \<times> error option) \<times> 's"
  logrus_GetLevel :: level
  CGroupPath :: "container \<Rightarrow> 's \<Rightarrow> (string \<times> error option) \<times> 's"
  Start :: "container \<Rightarrow> bool \<Rightarrow> 's \<Rightarrow> error option \<times> 's"
  StartAttachCtr ::
    "container option \<Rightarrow> stream option \<Rightarrow> stream option \<Rightarrow> stream option \<Rightarrow>
     string \<Rightarrow> bool \<Rightarrow> bool \<Rightarrow> bool \<Rightarrow> 's \<Rightarrow> error option \<times> 's"
  Wait :: "container \<Rightarrow> 's \<Rightarrow> (go_int32 \<times> error option) \<times> 's"
  GetConfig :: "'s \<Rightarrow> (RuntimeConfig option \<times> error option) \<times> 's"
  RemoveContainer :: "container option \<Rightarrow> bool \<Rightarrow> bool \<Rightarrow> 's \<Rightarrow> error option \<times> 's"
  os_Stat :: "string \<Rightarrow> 's \<Rightarrow> error option \<times> 's"
  ioutil_ReadFile :: "string \<Rightarrow> 's \<Rightarrow> (string \<times> error option) \<times> 's"
  Runtime_Log :: "container list \<Rightarrow> bool \<Rightarrow> 's \<Rightarrow> (string list \<times> error option) \<times> 's"
  strconv_Quote :: "string \<Rightarrow> string"

subsection \<open>StopContainers, KillContainers, WaitOnContainers\<close>

type_synonym failures = "string \<rightharpoonup> error"

text \<open>
  One turn of the loop of \<^verbatim>\<open>StopContainers\<close>, on the variables the loop changes.
  \<^verbatim>\<open>cli.Timeout\<close> is a uint already, so \<^verbatim>\<open>uint(cli.Timeout)\<close> is the value itself.
\<close>

definition StopContainers_step ::
  "'s engine \<Rightarrow> container \<Rightarrow> go_uint option \<times> string list \<times> failures \<times> 's world
     \<Rightarrow> go_uint option \<times> string list \<times> failures \<times> 's world" where
  "StopContainers_step r c st =
     (case st of (timeout, ok, failures, w) \<Rightarrow>
        (let (t, w1) =
               (case timeout of
                  None \<Rightarrow>
                    (StopTimeout c,
                     emit (Logrus DebugLevel ''Set timeout to container %s default (%d)''
                             [Str (ID c), Num (uint (StopTimeout c))]) w)
                | Some t \<Rightarrow> (t, w));
             (err, w2) = call (StopWithTimeout r c t) (EvStopWithTimeout c t) w1
         in case err of
              None \<Rightarrow> (Some t, ok @ [ID c], failures, w2)
            | Some e \<Rightarrow>
                if Cause e = ErrCtrStopped then
                  (Some t, ok @ [ID c], failures,
                   emit (Logrus DebugLevel ''Container %s is already stopped'' [Str (ID c)]) w2)
                else (Some t, ok, failures(ID c \<mapsto> e), w2)))"

fun StopContainers_loop ::
  "'s engine \<Rightarrow> container list \<Rightarrow> go_uint option \<times> string list \<times> failures \<times> 's world
     \<Rightarrow> go_uint option \<times> string list \<times> failures \<times> 's world" where
  "StopContainers_loop r [] st = st"
| "StopContainers_loop r (c # ctrs) st = StopContainers_loop r ctrs (StopContainers_step r c st)"

definition StopContainers ::
  "'s engine \<Rightarrow> StopValues \<Rightarrow> 's world
     \<Rightarrow> (string list \<times> failures \<times> error option) \<times> 's world" where
  "StopContainers r cli w =
     (let timeout = (if Changed cli ''timeout'' \<or> Changed cli ''time''
                     then Some (Timeout cli) else None);
          ((ctrs, err), w1) =
            call (GetContainersByContext r (stop_All cli) (stop_Latest cli) (InputArgs cli))
              (EvGetContainersByContext (stop_All cli) (stop_Latest cli) (InputArgs cli)) w
      in case err of
           Some e \<Rightarrow> (([], Map.empty, Some e), w1)
         | None \<Rightarrow>
             (case StopContainers_loop r ctrs (timeout, [], Map.empty, w1) of
                (timeout', ok, failures, w2) \<Rightarrow> ((ok, failures, None), w2)))"

definition KillContainers_step ::
  "'s engine \<Rightarrow> go_uint \<Rightarrow> container \<Rightarrow> string list \<times> failures \<times> 's world
     \<Rightarrow> string list \<times> failures \<times> 's world" where
  "KillContainers_step r signal c st =
     (case st of (ok, failures, w) \<Rightarrow>
        (let (err, w1) = call (Kill r c signal) (EvKill c signal) w
         in case err of
              None \<Rightarrow> (ok @ [ID c], failures, w1)
            | Some e \<Rightarrow> (ok, failures(ID c \<mapsto> e), w1)))"

fun KillContainers_loop ::
  "'s engine \<Rightarrow> go_uint \<Rightarrow> container list \<Rightarrow> string list \<times> failures \<times> 's world
     \<Rightarrow> string list \<times> failures \<times> 's world" where
  "KillContainers_loop r signal [] st = st"
| "KillContainers_loop r signal (c # ctrs) st =
     KillContainers_loop r signal ctrs (KillContainers_step r signal c st)"

text \<open>
  \<open>signal\<close> is a \<^verbatim>\<open>syscall.Signal\<close>, an int; \<^verbatim>\<open>uint(signal)\<close> keeps its 64 bits, so
  the signal is given here as the word it is converted to.
\<close>

definition KillContainers ::
  "'s engine \<Rightarrow> KillValues \<Rightarrow> go_uint \<Rightarrow> 's world
     \<Rightarrow> (string list \<times> failures \<times> error option) \<times> 's world" where
  "KillContainers r cli signal w =
     (let ((ctrs, err), w1) =
            call (GetContainersByContext r (kill_All cli) (kill_Latest cli) (InputArgs cli))
              (EvGetContainersByContext (kill_All cli) (kill_Latest cli) (InputArgs cli)) w
      in case err of
           Some e \<Rightarrow> (([], Map.empty, Some e), w1)
         | None \<Rightarrow>
             (case KillContainers_loop r signal ctrs ([], Map.empty, w1) of
                (ok, failures, w2) \<Rightarrow> ((ok, failures, None), w2)))"

definition WaitOnContainers_step ::
  "'s engine \<Rightarrow> duration \<Rightarrow> container \<Rightarrow> string list \<times> failures \<times> 's world
     \<Rightarrow> string list \<times> failures \<times> 's world" where
  "WaitOnContainers_step r interval c st =
     (case st of (ok, failures, w) \<Rightarrow>
        (let ((returnCode, err), w1) =
               call (WaitWithInterval r c interval) (EvWaitWithInterval c interval) w
         in case err of
              None \<Rightarrow> (ok @ [strconv_Itoa (sint returnCode)], failures, w1)
            | Some e \<Rightarrow> (ok, failures(ID c \<mapsto> e), w1)))"

fun WaitOnContainers_loop ::
  "'s engine \<Rightarrow> duration \<Rightarrow> container list \<Rightarrow> string list \<times> failures \<times> 's world
     \<Rightarrow> string list \<times> failures \<times> 's world" where
  "WaitOnContainers_loop r interval [] st = st"
| "WaitOnContainers_loop r interval (c # ctrs) st =
     WaitOnContainers_loop r interval ctrs (WaitOnContainers_step r interval c st)"

definition WaitOnContainers ::
  "'s engine \<Rightarrow> WaitValues \<Rightarrow> duration \<Rightarrow> 's world
     \<Rightarrow> (string list \<times> failures \<times> error option) \<times> 's world" where
  "WaitOnContainers r cli interval w =
     (let ((ctrs, err), w1) =
            call (GetContainersByContext r False (wait_Latest cli) (InputArgs cli))
              (EvGetContainersByContext False (wait_Latest cli) (InputArgs cli)) w
      in case err of
           Some e \<Rightarrow> (([], Map.empty, Some e), w1)
         | None \<Rightarrow>
             (case WaitOnContainers_loop r interval ctrs ([], Map.empty, w1) of
                (ok, failures, w2) \<Rightarrow> ((ok, failures, None), w2)))"

subsection \<open>Log\<close>


datatype 'a outcome = Panic | Return 'a


subsection \<open>CreateContainer\<close>

text \<open>
  \<^verbatim>\<open>ctr.ID()\<close> reads through the handle: on a nil handle it panics, whatever the error
  returned with it.
\<close>

definition CreateContainer ::
  "'s engine \<Rightarrow> PodmanCommand \<Rightarrow> 's world \<Rightarrow> (string \<times> error option) outcome \<times> 's world" where
  "CreateContainer r c w =
     (let ((ctr, createConfig, err), w1) = call (shared_CreateContainer r c) EvCreateContainer w
      in case ctr of
           None \<Rightarrow> (Panic, w1)
         | Some ct \<Rightarrow> (Return (ID ct, err), w1))"

subsection \<open>ReadExitFile\<close>

definition ReadExitFile ::
  "'s engine \<Rightarrow> string \<Rightarrow> string \<Rightarrow> 's world \<Rightarrow> (int \<times> error option) \<times> 's world" where
  "ReadExitFile r runtimeTmp ctrID w =
     (let exitFile = filepath_Join [runtimeTmp, ''exits'', ctrID @ ''-old''];
          w1 = emit (Logrus DebugLevel ''Attempting to read container %s exit code from file %s''
                       [Str ctrID, Str exitFile]) w;
          (serr, w2) = call (os_Stat r exitFile) (EvStat exitFile) w1
      in case serr of
           Some e \<Rightarrow>
             ((0, Some (Wrapf e (''error getting exit file for container '' @ ctrID))), w2)
         | None \<Rightarrow>
             (let ((statusStr, rerr), w3) =
                    call (ioutil_ReadFile r exitFile) (EvReadFile exitFile) w2
              in case rerr of
                   Some e \<Rightarrow>
                     ((0, Some (Wrapf e (''error reading exit file for container '' @ ctrID))), w3)
                 | None \<Rightarrow>
                     (case strconv_Atoi (strconv_Quote r) statusStr of
                        (exitCode, Some e) \<Rightarrow>
                          ((0, Some (Wrapf e (''error parsing exit code for container '' @ ctrID))),
                           w3)
                      | (exitCode, None) \<Rightarrow> ((exitCode, None), w3))))"

subsection \<open>Run\<close>

type_synonym streams = "stream option \<times> stream option \<times> stream option"
  \<comment> \<open>outputStream, errorStream, inputStream; \<open>None\<close> is nil\<close>

type_synonym 's run_result = "(int \<times> error option) outcome \<times> 's world"

text \<open>Lines 179 to 184: the cgroup path is looked up and logged at debug level only.\<close>

definition Run_debug :: "'s engine \<Rightarrow> container option \<Rightarrow> 's world \<Rightarrow> unit outcome \<times> 's world" where
  "Run_debug r ctr w =
     (if logrus_GetLevel r = DebugLevel then
        (case ctr of
           None \<Rightarrow> (Panic, w)
         | Some ct \<Rightarrow>
             (let ((cgroupPath, err), w1) = call (CGroupPath r ct) (EvCGroupPath ct) w
              in if err = None then
                   (Return (),
                    emit (Logrus DebugLevel ''container %q has CgroupParent %q''
                            [Str (ID ct), Str cgroupPath]) w1)
                 else (Return (), w1)))
      else (Return (), w))"

text \<open>Lines 187 to 201: the detached start.\<close>

definition Run_detached ::
  "'s engine \<Rightarrow> PodmanCommand \<Rightarrow> container option \<Rightarrow> 's world \<Rightarrow> 's run_result" where
  "Run_detached r c ctr w =
     (case ctr of
        None \<Rightarrow> (Panic, w)
      | Some ct \<Rightarrow>
          (let (err, w1) = call (Start r ct (IsSet c ''pod'')) (EvStart ct (IsSet c ''pod'')) w
           in case err of
                Some e \<Rightarrow>
                  (let exitCode = 127;
                       exitCode = (if strings_Index (Error e) ''permission denied'' > -1
                                   then 126 else exitCode)
                   in (Return (exitCode, Some e), w1))
              | None \<Rightarrow> (Return (0, None), emit (Print (ID ct @ [CHR 0x0A])) w1)))"

text \<open>Lines 221 to 232: the loop over the names given to \<^verbatim>\<open>--attach\<close>.\<close>

fun Run_attach_loop :: "'s engine \<Rightarrow> string list \<Rightarrow> streams \<Rightarrow> error + streams" where
  "Run_attach_loop r [] st = Inr st"
| "Run_attach_loop r (stream # attachTo) (outputStream, errorStream, inputStream) =
     (let s = strings_ToLower stream
      in if s = ''stdout'' then Run_attach_loop r attachTo (Some Stdout, errorStream, inputStream)
         else if s = ''stderr'' then Run_attach_loop r attachTo (outputStream, Some Stderr, inputStream)
         else if s = ''stdin'' then Run_attach_loop r attachTo (outputStream, errorStream, Some Stdin)
         else Inl (Wrapf ErrInvalidArg
                     (''invalid stream '' @ strconv_Quote r stream
                        @ '' for --attach - must be one of stdin, stdout, or stderr'')))"

text \<open>Lines 203 to 233: which of the three streams take part.\<close>

definition Run_streams :: "'s engine \<Rightarrow> PodmanCommand \<Rightarrow> error + streams" where
  "Run_streams r c =
     (let outputStream = Some Stdout;
          errorStream = Some Stderr;
          inputStream = Some Stdin;
          inputStream = (if \<not> Bool_flag c ''interactive'' then None else inputStream)
      in if IsSet c ''attach'' \<or> IsSet c ''a'' then
           (let outputStream = None;
                errorStream = None;
                inputStream = (if \<not> Bool_flag c ''interactive'' then None else inputStream)
            in Run_attach_loop r (StringSlice c ''attach'') (outputStream, errorStream, inputStream))
         else Inr (outputStream, errorStream, inputStream))"

text \<open>
  Lines 256 to 274: the exit code after a successful attach. \<open>Inl\<close> is the return in the
  middle of the block, \<open>Inr\<close> the value of \<^verbatim>\<open>exitCode\<close> after it.
\<close>

definition Run_exit_code ::
  "'s engine \<Rightarrow> container \<Rightarrow> int \<Rightarrow> 's world
     \<Rightarrow> ((int \<times> error option) outcome + int) \<times> 's world" where
  "Run_exit_code r ct exitCode w =
     (let ((ecode, err), w1) = call (Wait r ct) (EvWait ct) w
      in case err of
           None \<Rightarrow> (Inr (sint ecode), w1)
         | Some e \<Rightarrow>
             if Cause e = ErrNoSuchCtr then
               (let ((config, cerr), w2) = call (GetConfig r) EvGetConfig w1
                in case cerr of
                     Some e2 \<Rightarrow> (Inl (Return (exitCode, Some e2)), w2)
                   | None \<Rightarrow>
                       (case config of
                          None \<Rightarrow> (Inl Panic, w2)
                        | Some cfg \<Rightarrow>
                            (case ReadExitFile r (TmpDir cfg) (ID ct) w2 of
                               ((ctrExitCode, Some e3), w3) \<Rightarrow>
                                 (Inr 127,
                                  emit (Logrus ErrorLevel ''Cannot get exit code: %v'' [Err e3]) w3)
                             | ((ctrExitCode, None), w3) \<Rightarrow> (Inr ctrExitCode, w3))))
             else (Inr exitCode, w1))"

text \<open>Lines 256 to 280: wait, then remove the container when \<^verbatim>\<open>--rm\<close> is set.\<close>

definition Run_wait ::
  "'s engine \<Rightarrow> PodmanCommand \<Rightarrow> container \<Rightarrow> int \<Rightarrow> 's world \<Rightarrow> 's run_result" where
  "Run_wait r c ct exitCode w =
     (case Run_exit_code r ct exitCode w of
        (Inl early, w1) \<Rightarrow> (early, w1)
      | (Inr exitCode, w1) \<Rightarrow>
          if IsSet c ''rm'' then
            (let (rmerr, w2) =
                   call (RemoveContainer r (Some ct) False True)
                     (EvRemoveContainer (Some ct) False True) w1
             in (Return (exitCode, None), w2))
          else (Return (exitCode, None), w1))"

text \<open>Lines 235 to 254, and on to the wait when start and attach succeed.\<close>

definition Run_start_attach ::
  "'s engine \<Rightarrow> PodmanCommand \<Rightarrow> container option \<Rightarrow> int \<Rightarrow> streams \<Rightarrow> 's world \<Rightarrow> 's run_result" where
  "Run_start_attach r c ctr exitCode st w =
     (case st of (outputStream, errorStream, inputStream) \<Rightarrow>
        (let (err, w1) =
               call (StartAttachCtr r ctr outputStream errorStream inputStream
                       (String_flag c ''detach-keys'') (Bool_flag c ''sig-proxy'') True
                       (IsSet c ''pod''))
                 (EvStartAttachCtr ctr outputStream errorStream inputStream
                    (String_flag c ''detach-keys'') (Bool_flag c ''sig-proxy'') True
                    (IsSet c ''pod'')) w
         in case err of
              Some e \<Rightarrow>
                if Cause e = ErrDetach then (Return (0, None), w1)
                else
                  (let exitCode = 127;
                       exitCode = (if strings_Index (Error e) ''permission denied'' > -1
                                   then 126 else exitCode)
                   in if IsSet c ''rm'' then
                        (let (deleteError, w2) =
                               call (RemoveContainer r ctr True False)
                                 (EvRemoveContainer ctr True False) w1
                         in case deleteError of
                              None \<Rightarrow> (Return (exitCode, Some e), w2)
                            | Some de \<Rightarrow>
                                (case ctr of
                                   None \<Rightarrow> (Panic, w2)
                                 | Some ct \<Rightarrow>
                                     (Return (exitCode, Some e),
                                      emit (Logrus ErrorLevel
                                              ''unable to remove container %s after failing to start and attach to it''
                                              [Str (ID ct)]) w2)))
                      else (Return (exitCode, Some e), w1))
            | None \<Rightarrow>
                (case ctr of
                   None \<Rightarrow> (Panic, w1)
                 | Some ct \<Rightarrow> Run_wait r c ct exitCode w1)))"

definition Run :: "'s engine \<Rightarrow> PodmanCommand \<Rightarrow> int \<Rightarrow> 's world \<Rightarrow> 's run_result" where
  "Run r c exitCode w =
     (let ((ctr, createConfig, err), w1) = call (shared_CreateContainer r c) EvCreateContainer w
      in case err of
           Some e \<Rightarrow> (Return (exitCode, Some e), w1)
         | None \<Rightarrow>
             (case Run_debug r ctr w1 of
                (Panic, w2) \<Rightarrow> (Panic, w2)
              | (Return u, w2) \<Rightarrow>
                  (case createConfig of
                     None \<Rightarrow> (Panic, w2)
                   | Some cfg \<Rightarrow>
                       if Detach cfg then Run_detached r c ctr w2
                       else
                         (case Run_streams r c of
                            Inl e \<Rightarrow> (Return (exitCode, Some e), w2)
                          | Inr st \<Rightarrow> Run_start_attach r c ctr exitCode st w2))))"

text \<open>
  \<open>Run_created r c w ct cfg w2\<close>: from the world \<open>w\<close>, \<open>Run\<close> creates the container
  \<open>ct\<close> with the configuration \<open>cfg\<close>, without an error, and arrives at line 186 in the
  world \<open>w2\<close>.
\<close>

definition Run_created ::
  "'s engine \<Rightarrow> PodmanCommand \<Rightarrow> 's world \<Rightarrow> container \<Rightarrow> createConfig \<Rightarrow> 's world \<Rightarrow> bool" where
  "Run_created r c w ct cfg w2 =
     (case call (shared_CreateContainer r c) EvCreateContainer w of
        ((ctr, createConfig, err), w1) \<Rightarrow>
          ctr = Some ct \<and> createConfig = Some cfg \<and> err = None
          \<and> Run_debug r (Some ct) w1 = (Return (), w2))"

subsection \<open>Reading a trace\<close>

text \<open>The calls of StopWithTimeout, Kill and WaitWithInterval in a trace, in order.\<close>

fun stop_events :: "event list \<Rightarrow> (container \<times> go_uint \<times> error option) list" where
  "stop_events [] = []"
| "stop_events (EvStopWithTimeout c t e # evs) = (c, t, e) # stop_events evs"
| "stop_events (ev # evs) = stop_events evs"

fun kill_events :: "event list \<Rightarrow> (container \<times> go_uint \<times> error option) list" where
  "kill_events [] = []"
| "kill_events (EvKill c sig e # evs) = (c, sig, e) # kill_events evs"
| "kill_events (ev # evs) = kill_events evs"

fun wait_events :: "event list \<Rightarrow> (container \<times> go_int32 \<times> error option) list" where
  "wait_events [] = []"
| "wait_events (EvWaitWithInterval c i (rc, e) # evs) = (c, rc, e) # wait_events evs"
| "wait_events (ev # evs) = wait_events evs"

text \<open>
  The outputs of a batch wait as read from its calls: the decimal exit codes of the waits
  that succeeded, and the ids of the containers whose wait failed.
\<close>

definition wait_ok :: "(container \<times> go_int32 \<times> error option) list \<Rightarrow> string list" where
  "wait_ok evs = map (\<lambda>(c, rc, e). strconv_Itoa (sint rc)) (filter (\<lambda>(c, rc, e). e = None) evs)"

definition wait_failed :: "(container \<times> go_int32 \<times> error option) list \<Rightarrow> string list" where
  "wait_failed evs = map (\<lambda>(c, rc, e). ID c) (filter (\<lambda>(c, rc, e). e \<noteq> None) evs)"

text \<open>The arguments of the calls of \<^verbatim>\<open>logrus.Debugf\<close> that announce a default timeout.\<close>

fun timeout_logs :: "event list \<Rightarrow> arg list list" where
  "timeout_logs [] = []"
| "timeout_logs (Logrus l f args # evs) =
     (if f = ''Set timeout to container %s default (%d)'' then args # timeout_logs evs
      else timeout_logs evs)"
| "timeout_logs (ev # evs) = timeout_logs evs"

text \<open>A stop that counts as done: no error, or the error that the container is stopped.\<close>

definition stopped :: "error option \<Rightarrow> bool" where
  "stopped e = (case e of None \<Rightarrow> True | Some x \<Rightarrow> Cause x = ErrCtrStopped)"


text \<open>What a trace prints, and the events that attach to a container or wait for it.\<close>

fun printed :: "event list \<Rightarrow> string list" where
  "printed [] = []"
| "printed (Print s # evs) = s # printed evs"
| "printed (ev # evs) = printed evs"

fun attaches_or_waits :: "event \<Rightarrow> bool" where
  "attaches_or_waits (EvStartAttachCtr ctr out err inp keys sp st pod res) = True"
| "attaches_or_waits (EvWait ctr res) = True"
| "attaches_or_waits ev = False"

subsection \<open>Engines and requests for the examples\<close>

definition ctrA :: container where
  "ctrA = \<lparr>ID = ''aaa'', StopTimeout = 10\<rparr>"

definition ctrB :: container where
  "ctrB = \<lparr>ID = ''bbb'', StopTimeout = 30\<rparr>"

text \<open>
  Modelled from the spec: the resolver \<^verbatim>\<open>shortcuts.GetContainersByContext\<close> is not among
  the embedded files. By the spec, the latest flag gives the container created last and
  fails when there is none; otherwise the all flag gives every container of the store;
  otherwise each name is looked up and the first unknown one fails the whole call. The
  store is the list of its containers in the order of their creation.
\<close>

fun resolve_names :: "container list \<Rightarrow> string list \<Rightarrow> container list \<times> error option" where
  "resolve_names store [] = ([], None)"
| "resolve_names store (n # ns) =
     (case find (\<lambda>c. ID c = n) store of
        None \<Rightarrow> ([], Some ErrNoSuchCtr)
      | Some c \<Rightarrow>
          (case resolve_names store ns of
             (cs, None) \<Rightarrow> (c # cs, None)
           | (cs, Some e) \<Rightarrow> ([], Some e)))"

definition resolve ::
  "container list \<Rightarrow> bool \<Rightarrow> bool \<Rightarrow> string list \<Rightarrow> container list \<times> error option" where
  "resolve store all latest names =
     (if latest then (if store = [] then ([], Some ErrNoSuchCtr) else ([last store], None))
      else if all then (store, None)
      else resolve_names store names)"

text \<open>
  An engine without a state over the store \<open>[ctrA, ctrB]\<close>, in which every call succeeds:
  a created container is \<open>ctrA\<close>, a wait yields the exit code 0, no file exists. The
  examples change single fields.
\<close>

definition engine0 :: "bool \<Rightarrow> unit engine" where
  "engine0 detach =
     \<lparr>GetContainersByContext = (\<lambda>all latest names s. (resolve [ctrA, ctrB] all latest names, s)),
      StopWithTimeout = (\<lambda>c t s. (None, s)),
      Kill = (\<lambda>c sig s. (None, s)),
      WaitWithInterval = (\<lambda>c i s. ((0, None), s)),
      shared_CreateContainer = (\<lambda>c s. ((Some ctrA, Some \<lparr>Detach = detach\<rparr>, None), s)),
      logrus_GetLevel = InfoLevel,
      CGroupPath = (\<lambda>c s. (([], None), s)),
      Start = (\<lambda>c pod s. (None, s)),
      StartAttachCtr = (\<lambda>ctr out err inp keys sp st pod s. (None, s)),
      Wait = (\<lambda>c s. ((0, None), s)),
      GetConfig = (\<lambda>s. ((Some \<lparr>TmpDir = ''/run/libpod''\<rparr>, None), s)),
      RemoveContainer = (\<lambda>ctr force vol s. (None, s)),
      os_Stat = (\<lambda>path s. (Some (New ''no such file or directory''), s)),
      ioutil_ReadFile = (\<lambda>path s. (([], Some (New ''no such file or directory'')), s)),
      Runtime_Log = (\<lambda>ctrs multi s. (([], None), s)),
      strconv_Quote = (\<lambda>s. CHR 0x22 # s @ [CHR 0x22])\<rparr>"

definition world0 :: "unit world" where
  "world0 = \<lparr>state = (), trace = []\<rparr>"

definition command :: "string list \<Rightarrow> PodmanCommand" where
  "command args =
     \<lparr>InputArgs = args, Changed = (\<lambda>n. False), IsSet = (\<lambda>n. False), Bool_flag = (\<lambda>n. False),
      String_flag = (\<lambda>n. []), StringSlice = (\<lambda>n. [])\<rparr>"

definition stop_request :: "string list \<Rightarrow> StopValues" where
  "stop_request args = PodmanCommand.extend (command args)
     (StopValues.fields False False 0)"

definition kill_request :: "string list \<Rightarrow> KillValues" where
  "kill_request args = PodmanCommand.extend (command args) (KillValues.fields False False)"

definition wait_request :: "bool \<Rightarrow> string list \<Rightarrow> WaitValues" where
  "wait_request all args = PodmanCommand.extend (command args) (WaitValues.fields all False)"

definition logs_request :: "64 word \<Rightarrow> string list \<Rightarrow> LogsValues" where
  "logs_request tail args = PodmanCommand.extend (command args) (LogsValues.fields tail False)"

text \<open>An engine in which the container \<open>bbb\<close> cannot be stopped, killed or waited for.\<close>

definition engine_b_fails :: "unit engine" where
  "engine_b_fails =
     (engine0 False)
       \<lparr>StopWithTimeout := (\<lambda>c t s. (if ID c = ''bbb'' then Some (New ''timed out'') else None, s)),
        Kill := (\<lambda>c sig s. (if ID c = ''bbb'' then Some (New ''not running'') else None, s)),
        WaitWithInterval :=
          (\<lambda>c i s. (if ID c = ''bbb'' then (0, Some ErrNoSuchCtr) else (3, None), s))\<rparr>"

text \<open>An engine in which the container \<open>bbb\<close> is already stopped.\<close>

text \<open>The error of a stop of a container that is stopped already.\<close>

definition already_stopped :: error where
  "already_stopped = Wrapf ErrCtrStopped ''can only stop created, running, or stopped containers''"

definition engine_b_stopped :: "unit engine" where
  "engine_b_stopped =
     (engine0 False)
       \<lparr>StopWithTimeout := (\<lambda>c t s. (if ID c = ''bbb'' then Some already_stopped else None, s))\<rparr>"

text \<open>
  A run command with \<^verbatim>\<open>--attach\<close> set to the given names, interactive or not.
\<close>

definition attach_command :: "string list \<Rightarrow> bool \<Rightarrow> PodmanCommand" where
  "attach_command names interactive =
     \<lparr>InputArgs = [], Changed = (\<lambda>n. False), IsSet = (\<lambda>n. n = ''attach''),
      Bool_flag = (\<lambda>n. n = ''interactive'' \<and> interactive), String_flag = (\<lambda>n. []),
      StringSlice = (\<lambda>n. if n = ''attach'' then names else [])\<rparr>"

text \<open>
  Engines for an attached run whose container is gone when it is waited for: in the first
  the exit file of \<open>aaa\<close> holds 42, in the second there is no exit file, in the third
  the configuration of the runtime cannot be read.
\<close>

definition engine_exit_file :: "unit engine" where
  "engine_exit_file =
     (engine0 False)
       \<lparr>Wait := (\<lambda>c s. ((0, Some ErrNoSuchCtr), s)),
        os_Stat := (\<lambda>path s. (if path = ''/run/libpod/exits/aaa-old'' then None
                                else Some (New ''no such file or directory''), s)),
        ioutil_ReadFile := (\<lambda>path s. (if path = ''/run/libpod/exits/aaa-old'' then (''42'', None)
                                        else ([], Some (New ''no such file or directory'')), s))\<rparr>"

definition engine_no_exit_file :: "unit engine" where
  "engine_no_exit_file = (engine0 False)\<lparr>Wait := (\<lambda>c s. ((0, Some ErrNoSuchCtr), s))\<rparr>"

definition engine_no_config :: "unit engine" where
  "engine_no_config =
     (engine0 False)
       \<lparr>Wait := (\<lambda>c s. ((0, Some ErrNoSuchCtr), s)),
        GetConfig := (\<lambda>s. ((None, Some (New ''runtime has already been stopped'')), s))\<rparr>"

text \<open>Engines in which the start of a detached run, or the start and attach, fails.\<close>

definition engine_start_denied :: "unit engine" where
  "engine_start_denied =
     (engine0 True)\<lparr>Start := (\<lambda>c pod s. (Some (New ''exec: permission denied''), s))\<rparr>"

definition engine_attach_fails :: "unit engine" where
  "engine_attach_fails =
     (engine0 False)
       \<lparr>StartAttachCtr :=
          (\<lambda>ctr out err inp keys sp st pod s. (Some (New ''executable file not found''), s))\<rparr>"

section \<open>Properties\<close>

lemmas fixture_defs =
  engine_b_fails_def engine_b_stopped_def already_stopped_def engine0_def attach_command_def
  engine_exit_file_def engine_no_exit_file_def engine_no_config_def engine_start_denied_def
  engine_attach_fails_def stop_request_def kill_request_def
  wait_request_def logs_request_def command_def world0_def resolve_def ctrA_def ctrB_def
  PodmanCommand.defs StopValues.defs KillValues.defs WaitValues.defs LogsValues.defs

subsection \<open>CreateContainer\<close>

text \<open>
  C10. When the engine's creation returns an error, \<open>CreateContainer\<close> still reads the id
  through the returned handle: it panics exactly when the handle is nil, and with a
  handle it returns that handle's id together with the error. So it is safe on a failed
  creation only if the engine returns a handle all the same.
\<close>

theorem CreateContainer_failed_creation:
  assumes "shared_CreateContainer r c (state w) = ((ctr, cfg, Some e), s1)"
  shows "(fst (CreateContainer r c w) = Panic \<longleftrightarrow> ctr = None)
         \<and> (\<forall>ct. ctr = Some ct \<longrightarrow> fst (CreateContainer r c w) = Return (ID ct, Some e))"
  using assms by (simp add: CreateContainer_def call_def split: option.splits)

theorem CreateContainer_failed_creation_witness:
  "fst (CreateContainer
          ((engine0 False)\<lparr>shared_CreateContainer := (\<lambda>c s. ((None, None, Some ErrInvalidArg), s))\<rparr>)
          (command []) world0) = Panic
   \<and> fst (CreateContainer
          ((engine0 False)\<lparr>shared_CreateContainer := (\<lambda>c s. ((Some ctrB, None, Some ErrInvalidArg), s))\<rparr>)
          (command []) world0) = Return (''bbb'', Some ErrInvalidArg)"
  using CreateContainer_failed_creation
          [of "(engine0 False)\<lparr>shared_CreateContainer := (\<lambda>c s. ((None, None, Some ErrInvalidArg), s))\<rparr>"
              "command []" world0 None None ErrInvalidArg "()"]
        CreateContainer_failed_creation
          [of "(engine0 False)\<lparr>shared_CreateContainer := (\<lambda>c s. ((Some ctrB, None, Some ErrInvalidArg), s))\<rparr>"
              "command []" world0 "Some ctrB" None ErrInvalidArg "()"]
  by (simp add: fixture_defs)

subsection \<open>Log\<close>







subsection \<open>The loops of the batch operations\<close>

lemma stop_events_append [simp]: "stop_events (xs @ ys) = stop_events xs @ stop_events ys"
  by (induction xs rule: stop_events.induct) simp_all

lemma kill_events_append [simp]: "kill_events (xs @ ys) = kill_events xs @ kill_events ys"
  by (induction xs rule: kill_events.induct) simp_all

lemma wait_events_append [simp]: "wait_events (xs @ ys) = wait_events xs @ wait_events ys"
  by (induction xs rule: wait_events.induct) simp_all

lemma timeout_logs_append [simp]: "timeout_logs (xs @ ys) = timeout_logs xs @ timeout_logs ys"
  by (induction xs rule: timeout_logs.induct) simp_all

text \<open>What one turn of the stop loop does.\<close>

lemma StopContainers_step_cases:
  assumes "StopContainers_step r c (tm, ok, f, w) = (tm', ok', f', w')"
  obtains e where
    "tm' = Some (case tm of None \<Rightarrow> StopTimeout c | Some t \<Rightarrow> t)"
    "stop_events (trace w') = stop_events (trace w) @ [(c, the tm', e)]"
    "timeout_logs (trace w') = timeout_logs (trace w)
       @ (if tm = None then [[Str (ID c), Num (uint (StopTimeout c))]] else [])"
    "stopped e \<Longrightarrow> ok' = ok @ [ID c] \<and> f' = f"
    "\<not> stopped e \<Longrightarrow> ok' = ok \<and> (\<exists>x. e = Some x \<and> f' = f(ID c \<mapsto> x))"
  using assms
  by (auto simp: StopContainers_step_def call_def emit_def stopped_def
           split: prod.splits option.splits if_splits)


lemma StopContainers_loop_ids:
  assumes "StopContainers_loop r ctrs (tm, ok, f, w) = (tm', ok', f', w')"
  shows "set ok' \<union> dom f' = set ok \<union> dom f \<union> ID ` set ctrs"
  using assms
proof (induction ctrs arbitrary: tm ok f w)
  case Nil
  then show ?case by simp
next
  case (Cons c ctrs)
  obtain tm1 ok1 f1 w1 where step: "StopContainers_step r c (tm, ok, f, w) = (tm1, ok1, f1, w1)"
    by (metis prod_cases4)
  from step have "set ok1 \<union> dom f1 = set ok \<union> dom f \<union> {ID c}"
    by (elim StopContainers_step_cases) (case_tac "stopped e"; auto)
  moreover from Cons.prems step have "set ok' \<union> dom f' = set ok1 \<union> dom f1 \<union> ID ` set ctrs"
    by (simp add: Cons.IH)
  ultimately show ?case by auto
qed

lemma StopContainers_loop_disjoint:
  assumes "StopContainers_loop r ctrs (tm, ok, f, w) = (tm', ok', f', w')"
      and "distinct (map ID ctrs)" and "ID ` set ctrs \<inter> (set ok \<union> dom f) = {}"
      and "set ok \<inter> dom f = {}"
  shows "set ok' \<inter> dom f' = {}"
  using assms
proof (induction ctrs arbitrary: tm ok f w)
  case Nil
  then show ?case by simp
next
  case (Cons c ctrs)
  obtain tm1 ok1 f1 w1 where step: "StopContainers_step r c (tm, ok, f, w) = (tm1, ok1, f1, w1)"
    by (metis prod_cases4)
  from Cons.prems have fresh: "ID c \<notin> set ok" "ID c \<notin> dom f" by auto
  from step fresh Cons.prems(4) have one: "set ok1 \<inter> dom f1 = {}"
    by (elim StopContainers_step_cases) (case_tac "stopped e"; auto split: if_splits)
  from step have grow: "set ok1 \<union> dom f1 = set ok \<union> dom f \<union> {ID c}"
    by (elim StopContainers_step_cases) (case_tac "stopped e"; auto)
  from Cons.prems grow have rest: "ID ` set ctrs \<inter> (set ok1 \<union> dom f1) = {}"
    by auto
  from Cons.prems(2) have "distinct (map ID ctrs)" by simp
  with Cons.IH [of tm1 ok1 f1 w1] Cons.prems(1) step one rest show ?case by simp
qed

lemma KillContainers_step_cases:
  assumes "KillContainers_step r sig c (ok, f, w) = (ok', f', w')"
  obtains e where
    "kill_events (trace w') = kill_events (trace w) @ [(c, sig, e)]"
    "e = None \<Longrightarrow> ok' = ok @ [ID c] \<and> f' = f"
    "e \<noteq> None \<Longrightarrow> ok' = ok \<and> (\<exists>x. e = Some x \<and> f' = f(ID c \<mapsto> x))"
  using assms
  by (auto simp: KillContainers_step_def call_def split: prod.splits option.splits)

lemma KillContainers_loop_ids:
  assumes "KillContainers_loop r sig ctrs (ok, f, w) = (ok', f', w')"
  shows "set ok' \<union> dom f' = set ok \<union> dom f \<union> ID ` set ctrs"
  using assms
proof (induction ctrs arbitrary: ok f w)
  case Nil
  then show ?case by simp
next
  case (Cons c ctrs)
  obtain ok1 f1 w1 where step: "KillContainers_step r sig c (ok, f, w) = (ok1, f1, w1)"
    by (metis prod_cases3)
  from step have "set ok1 \<union> dom f1 = set ok \<union> dom f \<union> {ID c}"
    by (elim KillContainers_step_cases) (case_tac "e = None"; auto)
  moreover from Cons.prems step have "set ok' \<union> dom f' = set ok1 \<union> dom f1 \<union> ID ` set ctrs"
    by (simp add: Cons.IH)
  ultimately show ?case by auto
qed

lemma KillContainers_loop_disjoint:
  assumes "KillContainers_loop r sig ctrs (ok, f, w) = (ok', f', w')"
      and "distinct (map ID ctrs)" and "ID ` set ctrs \<inter> (set ok \<union> dom f) = {}"
      and "set ok \<inter> dom f = {}"
  shows "set ok' \<inter> dom f' = {}"
  using assms
proof (induction ctrs arbitrary: ok f w)
  case Nil
  then show ?case by simp
next
  case (Cons c ctrs)
  obtain ok1 f1 w1 where step: "KillContainers_step r sig c (ok, f, w) = (ok1, f1, w1)"
    by (metis prod_cases3)
  from Cons.prems have fresh: "ID c \<notin> set ok" "ID c \<notin> dom f" by auto
  from step fresh Cons.prems(4) have one: "set ok1 \<inter> dom f1 = {}"
    by (elim KillContainers_step_cases) (case_tac "e = None"; auto split: if_splits)
  from step have grow: "set ok1 \<union> dom f1 = set ok \<union> dom f \<union> {ID c}"
    by (elim KillContainers_step_cases) (case_tac "e = None"; auto)
  from Cons.prems grow have rest: "ID ` set ctrs \<inter> (set ok1 \<union> dom f1) = {}"
    by auto
  from Cons.prems(2) have "distinct (map ID ctrs)" by simp
  with Cons.IH [of ok1 f1 w1] Cons.prems(1) step one rest show ?case by simp
qed

lemma wait_ok_snoc:
  "wait_ok (evs @ [(c, rc, e)])
     = wait_ok evs @ (if e = None then [strconv_Itoa (sint rc)] else [])"
  by (simp add: wait_ok_def)

lemma wait_failed_snoc:
  "wait_failed (evs @ [(c, rc, e)]) = wait_failed evs @ (if e = None then [] else [ID c])"
  by (simp add: wait_failed_def)

lemma WaitOnContainers_step_cases:
  assumes "WaitOnContainers_step r iv c (ok, f, w) = (ok', f', w')"
  obtains rc e where
    "wait_events (trace w') = wait_events (trace w) @ [(c, rc, e)]"
    "e = None \<Longrightarrow> ok' = ok @ [strconv_Itoa (sint rc)] \<and> f' = f"
    "e \<noteq> None \<Longrightarrow> ok' = ok \<and> (\<exists>x. e = Some x \<and> f' = f(ID c \<mapsto> x))"
  using assms
  by (auto simp: WaitOnContainers_step_def call_def split: prod.splits option.splits)

lemma WaitOnContainers_loop_outputs:
  assumes "WaitOnContainers_loop r iv ctrs (ok, f, w) = (ok', f', w')"
      and "ok = wait_ok (wait_events (trace w))"
      and "dom f = set (wait_failed (wait_events (trace w)))"
  shows "ok' = wait_ok (wait_events (trace w'))
         \<and> dom f' = set (wait_failed (wait_events (trace w')))
         \<and> map fst (wait_events (trace w')) = map fst (wait_events (trace w)) @ ctrs"
  using assms
proof (induction ctrs arbitrary: ok f w)
  case Nil
  then show ?case by auto
next
  case (Cons c ctrs)
  obtain ok1 f1 w1 where step: "WaitOnContainers_step r iv c (ok, f, w) = (ok1, f1, w1)"
    by (metis prod_cases3)
  from step Cons.prems(2,3)
  have inv: "ok1 = wait_ok (wait_events (trace w1))
             \<and> dom f1 = set (wait_failed (wait_events (trace w1)))
             \<and> map fst (wait_events (trace w1)) = map fst (wait_events (trace w)) @ [c]"
    by (elim WaitOnContainers_step_cases)
       (case_tac "e = None"; clarsimp simp: wait_ok_snoc wait_failed_snoc)
  with Cons.IH [of ok1 f1 w1] Cons.prems(1) step show ?case by simp
qed

lemma wait_outputs_count:
  assumes "distinct (map (\<lambda>(c, rc, e). ID c) evs)"
  shows "length (wait_ok evs) + card (set (wait_failed evs)) = length evs"
proof -
  have "distinct (wait_failed evs)"
    unfolding wait_failed_def using assms by (rule distinct_map_filter)
  then have "card (set (wait_failed evs)) = length (wait_failed evs)"
    by (rule distinct_card)
  then have "card (set (wait_failed evs)) = length (filter (\<lambda>(c, rc, e). e \<noteq> None) evs)"
    by (simp add: wait_failed_def)
  moreover have "length (wait_ok evs) = length (filter (\<lambda>(c, rc, e). e = None) evs)"
    by (simp add: wait_ok_def)
  moreover have "(\<lambda>(c, rc, e). e \<noteq> None)
                   = (\<lambda>x :: container \<times> go_int32 \<times> error option. \<not> (case x of (c, rc, e) \<Rightarrow> e = None))"
    by (simp add: fun_eq_iff)
  then have "length (filter (\<lambda>(c, rc, e). e = None) evs)
                 + length (filter (\<lambda>(c, rc, e). e \<noteq> None) evs) = length evs"
    by (simp only: sum_length_filter_compl)
  ultimately show ?thesis by simp
qed


subsection \<open>StopContainers\<close>








lemma WaitOnContainers_loop_trace:
  assumes "WaitOnContainers_loop r iv ctrs (ok, f, w) = (ok', f', w')"
  shows "\<exists>evs. trace w' = trace w @ evs"
  using assms
proof (induction ctrs arbitrary: ok f w)
  case Nil
  then show ?case by simp
next
  case (Cons c ctrs)
  obtain ok1 f1 w1 where step: "WaitOnContainers_step r iv c (ok, f, w) = (ok1, f1, w1)"
    by (metis prod_cases3)
  then have "\<exists>evs. trace w1 = trace w @ evs"
    by (auto simp: WaitOnContainers_step_def call_def split: prod.splits option.splits)
  moreover from Cons.IH [of ok1 f1 w1] Cons.prems step have "\<exists>evs. trace w' = trace w1 @ evs"
    by simp
  ultimately show ?case by auto
qed

subsection \<open>The outputs of a batch\<close>

text \<open>
  C1, as the claim states it, fails for the batch wait: a wait that succeeds appends the
  decimal exit code to the list, not the id. Waiting for the container \<open>aaa\<close>, which
  exits with code 0, leaves its id in neither output.
\<close>

theorem WaitOnContainers_id_in_neither_output:
  "fst (GetContainersByContext (engine0 False) False False [''aaa''] ()) = ([ctrA], None)
   \<and> ID ctrA = ''aaa''
   \<and> fst (fst (WaitOnContainers (engine0 False) (wait_request False [''aaa'']) 250 world0)) = [''0'']
   \<and> ''aaa'' \<notin> set (fst (fst (WaitOnContainers (engine0 False) (wait_request False [''aaa'']) 250 world0)))
   \<and> ''aaa'' \<notin> dom (fst (snd (fst (WaitOnContainers (engine0 False) (wait_request False [''aaa'']) 250 world0))))"
  by (simp add: WaitOnContainers_def WaitOnContainers_step_def call_def fixture_defs
        strconv_Itoa_def nat_digits.simps)

text \<open>
  C1, amended. Let the resolved containers \<open>ctrs\<close> have pairwise distinct ids. After a
  batch stop and after a batch kill, the ids in the list of successes and the keys of
  the map of failures together are the ids of \<open>ctrs\<close>, and no id is in both. After a
  batch wait, every container of \<open>ctrs\<close> was waited for once, in order; the list holds
  the decimal exit codes of the waits that succeeded, the keys of the map are the ids of
  the containers whose wait failed, and the two outputs together have one entry for
  each container.
\<close>

theorem batch_outputs_partition:
  assumes dist: "distinct (map ID ctrs)"
  shows "(GetContainersByContext r (stop_All sc) (stop_Latest sc) (InputArgs sc) s = ((ctrs, None), s1) \<longrightarrow>
            (case StopContainers r sc \<lparr>state = s, trace = []\<rparr> of
               ((ok, failures, err), w') \<Rightarrow>
                 set ok \<union> dom failures = ID ` set ctrs \<and> set ok \<inter> dom failures = {}))
       \<and> (GetContainersByContext r (kill_All kc) (kill_Latest kc) (InputArgs kc) s = ((ctrs, None), s1) \<longrightarrow>
            (case KillContainers r kc signal \<lparr>state = s, trace = []\<rparr> of
               ((ok, failures, err), w') \<Rightarrow>
                 set ok \<union> dom failures = ID ` set ctrs \<and> set ok \<inter> dom failures = {}))
       \<and> (GetContainersByContext r False (wait_Latest wc) (InputArgs wc) s = ((ctrs, None), s1) \<longrightarrow>
            (case WaitOnContainers r wc interval \<lparr>state = s, trace = []\<rparr> of
               ((ok, failures, err), w') \<Rightarrow>
                 map fst (wait_events (trace w')) = ctrs
                 \<and> ok = wait_ok (wait_events (trace w'))
                 \<and> dom failures = set (wait_failed (wait_events (trace w')))
                 \<and> length ok + card (dom failures) = length ctrs))"
proof (intro conjI impI)
  assume res: "GetContainersByContext r (stop_All sc) (stop_Latest sc) (InputArgs sc) s = ((ctrs, None), s1)"
  let ?w1 = "\<lparr>state = s1, trace = [EvGetContainersByContext (stop_All sc) (stop_Latest sc) (InputArgs sc) (ctrs, None)]\<rparr>"
  let ?tm = "if Changed sc ''timeout'' \<or> Changed sc ''time'' then Some (Timeout sc) else None"
  obtain tm' ok f w' where loop: "StopContainers_loop r ctrs (?tm, [], Map.empty, ?w1) = (tm', ok, f, w')"
    by (metis prod_cases4)
  from loop have "set ok \<union> dom f = ID ` set ctrs"
    using StopContainers_loop_ids [OF loop] by simp
  moreover from loop dist have "set ok \<inter> dom f = {}"
    using StopContainers_loop_disjoint [OF loop] by simp
  moreover from res loop have "StopContainers r sc \<lparr>state = s, trace = []\<rparr> = ((ok, f, None), w')"
    by (simp add: StopContainers_def call_def)
  ultimately show "case StopContainers r sc \<lparr>state = s, trace = []\<rparr> of
               ((ok, failures, err), w') \<Rightarrow>
                 set ok \<union> dom failures = ID ` set ctrs \<and> set ok \<inter> dom failures = {}"
    by simp
next
  assume res: "GetContainersByContext r (kill_All kc) (kill_Latest kc) (InputArgs kc) s = ((ctrs, None), s1)"
  let ?w1 = "\<lparr>state = s1, trace = [EvGetContainersByContext (kill_All kc) (kill_Latest kc) (InputArgs kc) (ctrs, None)]\<rparr>"
  obtain ok f w' where loop: "KillContainers_loop r signal ctrs ([], Map.empty, ?w1) = (ok, f, w')"
    by (metis prod_cases3)
  from loop have "set ok \<union> dom f = ID ` set ctrs"
    using KillContainers_loop_ids [OF loop] by simp
  moreover from loop dist have "set ok \<inter> dom f = {}"
    using KillContainers_loop_disjoint [OF loop] by simp
  moreover from res loop have "KillContainers r kc signal \<lparr>state = s, trace = []\<rparr> = ((ok, f, None), w')"
    by (simp add: KillContainers_def call_def)
  ultimately show "case KillContainers r kc signal \<lparr>state = s, trace = []\<rparr> of
               ((ok, failures, err), w') \<Rightarrow>
                 set ok \<union> dom failures = ID ` set ctrs \<and> set ok \<inter> dom failures = {}"
    by simp
next
  assume res: "GetContainersByContext r False (wait_Latest wc) (InputArgs wc) s = ((ctrs, None), s1)"
  let ?w1 = "\<lparr>state = s1, trace = [EvGetContainersByContext False (wait_Latest wc) (InputArgs wc) (ctrs, None)]\<rparr>"
  obtain ok f w' where loop: "WaitOnContainers_loop r interval ctrs ([], Map.empty, ?w1) = (ok, f, w')"
    by (metis prod_cases3)
  have out: "ok = wait_ok (wait_events (trace w'))
             \<and> dom f = set (wait_failed (wait_events (trace w')))
             \<and> map fst (wait_events (trace w')) = map fst (wait_events (trace ?w1)) @ ctrs"
    by (rule WaitOnContainers_loop_outputs [OF loop]) (simp_all add: wait_ok_def wait_failed_def)
  then have ctrs: "map fst (wait_events (trace w')) = ctrs" by simp
  have "map (\<lambda>(c, rc, e). ID c) (wait_events (trace w')) = map ID (map fst (wait_events (trace w')))"
    by (simp add: case_prod_beta)
  with dist ctrs have "distinct (map (\<lambda>(c, rc, e). ID c) (wait_events (trace w')))"
    by simp
  then have "length (wait_ok (wait_events (trace w'))) + card (set (wait_failed (wait_events (trace w'))))
               = length (wait_events (trace w'))"
    by (rule wait_outputs_count)
  moreover have "length (wait_events (trace w')) = length ctrs"
    using ctrs by (metis length_map)
  ultimately have count: "length ok + card (dom f) = length ctrs"
    using out by simp
  from res loop have "WaitOnContainers r wc interval \<lparr>state = s, trace = []\<rparr> = ((ok, f, None), w')"
    by (simp add: WaitOnContainers_def call_def)
  with out ctrs count show "case WaitOnContainers r wc interval \<lparr>state = s, trace = []\<rparr> of
               ((ok, failures, err), w') \<Rightarrow>
                 map fst (wait_events (trace w')) = ctrs
                 \<and> ok = wait_ok (wait_events (trace w'))
                 \<and> dom failures = set (wait_failed (wait_events (trace w')))
                 \<and> length ok + card (dom failures) = length ctrs"
    by simp
qed

theorem batch_outputs_partition_witness:
  "distinct (map ID [ctrA, ctrB])
   \<and> GetContainersByContext engine_b_fails False False [''aaa'', ''bbb''] () = (([ctrA, ctrB], None), ())
   \<and> (case StopContainers engine_b_fails (stop_request [''aaa'', ''bbb'']) \<lparr>state = (), trace = []\<rparr> of
         ((ok, failures, err), w') \<Rightarrow>
           set ok \<union> dom failures = ID ` set [ctrA, ctrB] \<and> set ok \<inter> dom failures = {})
   \<and> (case KillContainers engine_b_fails (kill_request [''aaa'', ''bbb'']) 9 \<lparr>state = (), trace = []\<rparr> of
         ((ok, failures, err), w') \<Rightarrow>
           set ok \<union> dom failures = ID ` set [ctrA, ctrB] \<and> set ok \<inter> dom failures = {})
   \<and> (case WaitOnContainers engine_b_fails (wait_request False [''aaa'', ''bbb'']) 250
               \<lparr>state = (), trace = []\<rparr> of
         ((ok, failures, err), w') \<Rightarrow>
           map fst (wait_events (trace w')) = [ctrA, ctrB]
           \<and> ok = wait_ok (wait_events (trace w'))
           \<and> dom failures = set (wait_failed (wait_events (trace w')))
           \<and> length ok + card (dom failures) = length [ctrA, ctrB])
   \<and> fst (fst (StopContainers engine_b_fails (stop_request [''aaa'', ''bbb''])
                   \<lparr>state = (), trace = []\<rparr>)) = [''aaa'']
   \<and> fst (fst (WaitOnContainers engine_b_fails (wait_request False [''aaa'', ''bbb'']) 250
                   \<lparr>state = (), trace = []\<rparr>)) = [''3'']"
proof -
  have d: "distinct (map ID [ctrA, ctrB])"
    by (simp add: ctrA_def ctrB_def)
  have r: "GetContainersByContext engine_b_fails False False [''aaa'', ''bbb''] ()
             = (([ctrA, ctrB], None), ())"
    by (simp add: fixture_defs)
  have rs: "GetContainersByContext engine_b_fails (stop_All (stop_request [''aaa'', ''bbb'']))
              (stop_Latest (stop_request [''aaa'', ''bbb''])) (InputArgs (stop_request [''aaa'', ''bbb'']))
              () = (([ctrA, ctrB], None), ())"
    and rk: "GetContainersByContext engine_b_fails (kill_All (kill_request [''aaa'', ''bbb'']))
              (kill_Latest (kill_request [''aaa'', ''bbb''])) (InputArgs (kill_request [''aaa'', ''bbb'']))
              () = (([ctrA, ctrB], None), ())"
    and rw: "GetContainersByContext engine_b_fails False
              (wait_Latest (wait_request False [''aaa'', ''bbb'']))
              (InputArgs (wait_request False [''aaa'', ''bbb''])) () = (([ctrA, ctrB], None), ())"
    by (simp_all add: fixture_defs)
  note part = batch_outputs_partition
                [OF d, of engine_b_fails "stop_request [''aaa'', ''bbb'']" "()" "()"
                   "kill_request [''aaa'', ''bbb'']" 9 "wait_request False [''aaa'', ''bbb'']" 250]
  have vs: "fst (fst (StopContainers engine_b_fails (stop_request [''aaa'', ''bbb''])
                   \<lparr>state = (), trace = []\<rparr>)) = [''aaa'']"
    by (simp add: StopContainers_def StopContainers_step_def call_def emit_def fixture_defs)
  have vw: "fst (fst (WaitOnContainers engine_b_fails (wait_request False [''aaa'', ''bbb'']) 250
                   \<lparr>state = (), trace = []\<rparr>)) = [''3'']"
    by (simp add: WaitOnContainers_def WaitOnContainers_step_def call_def fixture_defs
          strconv_Itoa_def nat_digits.simps)
  note p1 = part [THEN conjunct1, THEN mp, OF rs]
    and p2 = part [THEN conjunct2, THEN conjunct1, THEN mp, OF rk]
    and p3 = part [THEN conjunct2, THEN conjunct2, THEN mp, OF rw]
  show ?thesis
    by (rule conjI d r p1 p2 p3 vs vw)+
qed

subsection \<open>WaitOnContainers and the all-containers selection\<close>

text \<open>
  C8, as the claim states it, fails: \<open>WaitOnContainers\<close> rejects nothing on account of
  the all-containers flag. A request with that flag set, no ids and no latest flag
  returns without an error.
\<close>

theorem WaitOnContainers_all_not_rejected:
  "wait_All (wait_request True [])
   \<and> snd (snd (fst (WaitOnContainers (engine0 False) (wait_request True []) 250 world0))) = None
   \<and> fst (fst (WaitOnContainers (engine0 False) (wait_request True []) 250 world0)) = []"
  by (simp add: WaitOnContainers_def call_def fixture_defs)

text \<open>
  C8, amended. \<open>WaitOnContainers\<close> never selects all containers: its result does not
  depend on the all-containers flag of the request, and the first thing it does is to
  call the resolver with the all argument false, the latest flag and the ids of the
  request. When that resolution fails, it returns the error with empty outputs, and the
  call of the resolver is all that has happened: no wait has run.
\<close>

theorem WaitOnContainers_never_selects_all:
  "WaitOnContainers r (cli\<lparr>wait_All := b\<rparr>) interval w = WaitOnContainers r cli interval w
   \<and> (\<exists>res. trace (snd (WaitOnContainers r cli interval w)) ! length (trace w)
              = EvGetContainersByContext False (wait_Latest cli) (InputArgs cli) res)
   \<and> (\<forall>ctrs e s1.
         GetContainersByContext r False (wait_Latest cli) (InputArgs cli) (state w) = ((ctrs, Some e), s1) \<longrightarrow>
         WaitOnContainers r cli interval w
           = (([], Map.empty, Some e),
              \<lparr>state = s1,
               trace = trace w @ [EvGetContainersByContext False (wait_Latest cli) (InputArgs cli)
                                    (ctrs, Some e)]\<rparr>))"
proof (intro conjI allI impI)
  show "WaitOnContainers r (cli\<lparr>wait_All := b\<rparr>) interval w = WaitOnContainers r cli interval w"
    by (simp add: WaitOnContainers_def)
next
  let ?res = "GetContainersByContext r False (wait_Latest cli) (InputArgs cli) (state w)"
  let ?ev = "EvGetContainersByContext False (wait_Latest cli) (InputArgs cli) (fst ?res)"
  let ?w1 = "\<lparr>state = snd ?res, trace = trace w @ [?ev]\<rparr>"
  have "\<exists>evs. trace (snd (WaitOnContainers r cli interval w)) = trace ?w1 @ evs"
  proof (cases "snd (fst ?res)")
    case (Some e)
    then show ?thesis
      by (auto simp: WaitOnContainers_def call_def split: prod.splits)
  next
    case None
    obtain ok f w' where loop: "WaitOnContainers_loop r interval (fst (fst ?res)) ([], Map.empty, ?w1) = (ok, f, w')"
      by (metis prod_cases3)
    from WaitOnContainers_loop_trace [OF loop] obtain evs where "trace w' = trace ?w1 @ evs" ..
    moreover from None loop have "snd (WaitOnContainers r cli interval w) = w'"
      by (auto simp: WaitOnContainers_def call_def split: prod.splits)
    ultimately show ?thesis by simp
  qed
  then obtain evs where "trace (snd (WaitOnContainers r cli interval w)) = trace w @ ?ev # evs"
    by auto
  then have "trace (snd (WaitOnContainers r cli interval w)) ! length (trace w) = ?ev"
    by simp
  then show "\<exists>res. trace (snd (WaitOnContainers r cli interval w)) ! length (trace w)
              = EvGetContainersByContext False (wait_Latest cli) (InputArgs cli) res"
    by blast
next
  fix ctrs e s1
  assume "GetContainersByContext r False (wait_Latest cli) (InputArgs cli) (state w) = ((ctrs, Some e), s1)"
  then show "WaitOnContainers r cli interval w
           = (([], Map.empty, Some e),
              \<lparr>state = s1,
               trace = trace w @ [EvGetContainersByContext False (wait_Latest cli) (InputArgs cli)
                                    (ctrs, Some e)]\<rparr>)"
    by (simp add: WaitOnContainers_def call_def)
qed

theorem WaitOnContainers_never_selects_all_witness:
  "GetContainersByContext (engine0 False) False False [''zzz''] () = (([], Some ErrNoSuchCtr), ())
   \<and> WaitOnContainers (engine0 False) (wait_request True [''zzz'']) 250 world0
       = (([], Map.empty, Some ErrNoSuchCtr),
          \<lparr>state = (),
           trace = [EvGetContainersByContext False False [''zzz''] ([], Some ErrNoSuchCtr)]\<rparr>)"
proof -
  have h: "GetContainersByContext (engine0 False) False (wait_Latest (wait_request True [''zzz'']))
             (InputArgs (wait_request True [''zzz''])) (state world0) = (([], Some ErrNoSuchCtr), ())"
    by (simp add: fixture_defs)
  show ?thesis
    using h WaitOnContainers_never_selects_all
              [where r = "engine0 False" and cli = "wait_request True [''zzz'']" and b = True
                 and interval = 250 and w = world0]
    by (simp add: fixture_defs)
qed


subsection \<open>Run\<close>

lemma printed_append [simp]: "printed (xs @ ys) = printed xs @ printed ys"
  by (induction xs rule: printed.induct) simp_all

lemma strings_Index_sublist: "strings_Index s sub > -1 \<longleftrightarrow> sublist sub s"
  by (induction s) (auto simp: Let_def sublist_Cons_right)

lemma Run_debug_Some:
  "fst (Run_debug r (Some ct) w) = Return ()
   \<and> (\<exists>evs. trace (snd (Run_debug r (Some ct) w)) = trace w @ evs
              \<and> printed evs = [] \<and> (\<forall>ev\<in>set evs. \<not> attaches_or_waits ev))"
  by (auto simp: Run_debug_def call_def emit_def Let_def split: prod.splits)

lemma Run_created_trace:
  assumes "Run_created r c w ct cfg w2"
  shows "\<exists>evs. trace w2 = trace w @ evs \<and> printed evs = [] \<and> (\<forall>ev\<in>set evs. \<not> attaches_or_waits ev)"
proof -
  let ?w1 = "\<lparr>state = snd (shared_CreateContainer r c (state w)),
              trace = trace w @ [EvCreateContainer (Some ct, Some cfg, None)]\<rparr>"
  from assms have dbg: "Run_debug r (Some ct) ?w1 = (Return (), w2)"
    by (auto simp: Run_created_def call_def split: prod.splits)
  from Run_debug_Some [of r ct ?w1] obtain evs
    where "trace (snd (Run_debug r (Some ct) ?w1)) = trace ?w1 @ evs"
      and "printed evs = []" and "\<forall>ev\<in>set evs. \<not> attaches_or_waits ev"
    by blast
  with dbg have "trace w2 = trace w @ (EvCreateContainer (Some ct, Some cfg, None) # evs)
                 \<and> printed (EvCreateContainer (Some ct, Some cfg, None) # evs) = []
                 \<and> (\<forall>ev\<in>set (EvCreateContainer (Some ct, Some cfg, None) # evs). \<not> attaches_or_waits ev)"
    by simp
  then show ?thesis by blast
qed

lemma Run_after_create:
  assumes "Run_created r c w ct cfg w2"
  shows "Run r c exitCode w =
           (if Detach cfg then Run_detached r c (Some ct) w2
            else (case Run_streams r c of
                    Inl e \<Rightarrow> (Return (exitCode, Some e), w2)
                  | Inr st \<Rightarrow> Run_start_attach r c (Some ct) exitCode st w2))"
  using assms by (auto simp: Run_def Run_created_def split: prod.splits)

text \<open>
  C6. When the container \<open>ct\<close> is created with a configuration that is detached, and its
  start succeeds, \<open>Run\<close> returns the exit code 0 and no error, and after the creation (and
  the lookup of the cgroup path at debug level) all it does is to start the container and
  to print its id followed by a newline: the id is the only thing printed, and the run
  neither attaches to the container nor waits for it.
\<close>

theorem Run_detached_start:
  assumes created: "Run_created r c w ct cfg w2" and detach: "Detach cfg"
      and start: "Start r ct (IsSet c ''pod'') (state w2) = (None, s3)"
  shows "Run r c exitCode w
           = (Return (0, None),
              \<lparr>state = s3,
               trace = trace w2 @ [EvStart ct (IsSet c ''pod'') None, Print (ID ct @ [CHR 0x0A])]\<rparr>)
         \<and> printed (drop (length (trace w)) (trace (snd (Run r c exitCode w)))) = [ID ct @ [CHR 0x0A]]
         \<and> (\<forall>ev \<in> set (drop (length (trace w)) (trace (snd (Run r c exitCode w)))). \<not> attaches_or_waits ev)"
proof -
  have run: "Run r c exitCode w
           = (Return (0, None),
              \<lparr>state = s3,
               trace = trace w2 @ [EvStart ct (IsSet c ''pod'') None, Print (ID ct @ [CHR 0x0A])]\<rparr>)"
    using detach start
    by (simp add: Run_after_create [OF created] Run_detached_def call_def emit_def)
  from Run_created_trace [OF created] obtain evs
    where evs: "trace w2 = trace w @ evs" "printed evs = []" "\<forall>ev\<in>set evs. \<not> attaches_or_waits ev"
    by blast
  from run evs show ?thesis by auto
qed

theorem Run_detached_start_witness:
  "Run_created (engine0 True) (command []) world0 ctrA \<lparr>Detach = True\<rparr>
     \<lparr>state = (), trace = [EvCreateContainer (Some ctrA, Some \<lparr>Detach = True\<rparr>, None)]\<rparr>
   \<and> Detach \<lparr>Detach = True\<rparr>
   \<and> Start (engine0 True) ctrA (IsSet (command []) ''pod'') () = (None, ())
   \<and> Run (engine0 True) (command []) 125 world0
       = (Return (0, None),
          \<lparr>state = (),
           trace = [EvCreateContainer (Some ctrA, Some \<lparr>Detach = True\<rparr>, None),
                    EvStart ctrA False None, Print (''aaa'' @ [CHR 0x0A])]\<rparr>)"
proof -
  have h1: "Run_created (engine0 True) (command []) world0 ctrA \<lparr>Detach = True\<rparr>
     \<lparr>state = (), trace = [EvCreateContainer (Some ctrA, Some \<lparr>Detach = True\<rparr>, None)]\<rparr>"
    by (simp add: Run_created_def Run_debug_def call_def fixture_defs)
  have h2: "Detach \<lparr>Detach = True\<rparr>"
    by simp
  have h3: "Start (engine0 True) ctrA (IsSet (command []) ''pod'')
              (state \<lparr>state = (), trace = [EvCreateContainer (Some ctrA, Some \<lparr>Detach = True\<rparr>, None)]\<rparr>)
              = (None, ())"
    by (simp add: fixture_defs)
  show ?thesis
    using h1 h2 h3 Run_detached_start [OF h1 h2 h3, of 125]
    by (simp add: fixture_defs)
qed

text \<open>
  C3. When the start of a detached run fails, and when the start and attach of an attached
  run fails with an error whose cause is not the user's detach, \<open>Run\<close> returns that error
  with the exit code 126 if the text of the error contains \<^verbatim>\<open>permission denied\<close>, and
  with the exit code 127 otherwise.
\<close>

theorem Run_start_failure_exit_code:
  assumes created: "Run_created r c w ct cfg w2"
  shows "(Detach cfg \<and> Start r ct (IsSet c ''pod'') (state w2) = (Some e, s3) \<longrightarrow>
            fst (Run r c exitCode w)
              = Return (if sublist ''permission denied'' (Error e) then 126 else 127, Some e))
       \<and> (\<not> Detach cfg \<and> Run_streams r c = Inr (out, err, inp)
            \<and> StartAttachCtr r (Some ct) out err inp (String_flag c ''detach-keys'')
                 (Bool_flag c ''sig-proxy'') True (IsSet c ''pod'') (state w2) = (Some e, s3)
            \<and> Cause e \<noteq> ErrDetach \<longrightarrow>
            fst (Run r c exitCode w)
              = Return (if sublist ''permission denied'' (Error e) then 126 else 127, Some e))"
  by (auto simp: Run_after_create [OF created] Run_detached_def Run_start_attach_def call_def
        emit_def Let_def strings_Index_sublist [symmetric] split: prod.splits option.splits)

theorem Run_start_failure_exit_code_witness:
  "Run_created engine_start_denied (command []) world0 ctrA \<lparr>Detach = True\<rparr>
     \<lparr>state = (), trace = [EvCreateContainer (Some ctrA, Some \<lparr>Detach = True\<rparr>, None)]\<rparr>
   \<and> fst (Run engine_start_denied (command []) 125 world0)
       = Return (126, Some (New ''exec: permission denied''))
   \<and> Run_created engine_attach_fails (command []) world0 ctrA \<lparr>Detach = False\<rparr>
     \<lparr>state = (), trace = [EvCreateContainer (Some ctrA, Some \<lparr>Detach = False\<rparr>, None)]\<rparr>
   \<and> Cause (New ''executable file not found'') \<noteq> ErrDetach
   \<and> fst (Run engine_attach_fails (command []) 125 world0)
       = Return (127, Some (New ''executable file not found''))"
proof -
  have h1: "Run_created engine_start_denied (command []) world0 ctrA \<lparr>Detach = True\<rparr>
     \<lparr>state = (), trace = [EvCreateContainer (Some ctrA, Some \<lparr>Detach = True\<rparr>, None)]\<rparr>"
    by (simp add: Run_created_def Run_debug_def call_def fixture_defs)
  have h2: "Run_created engine_attach_fails (command []) world0 ctrA \<lparr>Detach = False\<rparr>
     \<lparr>state = (), trace = [EvCreateContainer (Some ctrA, Some \<lparr>Detach = False\<rparr>, None)]\<rparr>"
    by (simp add: Run_created_def Run_debug_def call_def fixture_defs)
  have s: "Run_streams engine_attach_fails (command []) = Inr (Some Stdout, Some Stderr, None)"
    by (simp add: Run_streams_def fixture_defs)
  have d: "sublist ''permission denied'' ''exec: permission denied''"
    by (simp add: strings_Index_sublist [symmetric])
  have n: "\<not> sublist ''permission denied'' ''executable file not found''"
    by (simp add: strings_Index_sublist [symmetric])
  show ?thesis
    using h1 h2 s d n
      Run_start_failure_exit_code
        [OF h1, where e = "New ''exec: permission denied''" and exitCode = 125]
      Run_start_failure_exit_code
        [OF h2, where e = "New ''executable file not found''" and exitCode = 125
           and out = "Some Stdout" and err = "Some Stderr" and inp = None]
    by (simp add: fixture_defs)
qed


lemma Run_attach_loop_streams:
  "Run_attach_loop r names (out, err, inp) = Inr (out', err', inp') \<Longrightarrow>
     (out' \<noteq> None \<longleftrightarrow> out \<noteq> None \<or> (\<exists>n\<in>set names. strings_ToLower n = ''stdout''))
   \<and> (err' \<noteq> None \<longleftrightarrow> err \<noteq> None \<or> (\<exists>n\<in>set names. strings_ToLower n = ''stderr''))
   \<and> (inp' \<noteq> None \<longleftrightarrow> inp \<noteq> None \<or> (\<exists>n\<in>set names. strings_ToLower n = ''stdin''))"
proof (induction names arbitrary: out err inp)
  case Nil
  then show ?case by simp
next
  case (Cons n names)
  then show ?case
    by (auto simp: Let_def split: if_splits)
qed

lemma ReadExitFile_trace:
  "ReadExitFile r t i w = (res, w') \<Longrightarrow> \<exists>evs. trace w' = trace w @ evs"
  by (auto simp: ReadExitFile_def call_def emit_def Let_def split: prod.splits option.splits)


lemma Run_exit_code_trace:
  "Run_exit_code r ct x w = (res, w') \<Longrightarrow> \<exists>evs. trace w' = trace w @ evs"
  by (auto simp: Run_exit_code_def call_def emit_def Let_def
           split: prod.splits option.splits if_splits dest!: ReadExitFile_trace)

lemma Run_wait_trace:
  "Run_wait r c ct x w = (res, w') \<Longrightarrow> \<exists>evs. trace w' = trace w @ evs"
  by (auto simp: Run_wait_def call_def split: prod.splits sum.splits if_splits
           dest!: Run_exit_code_trace)

lemma Run_start_attach_event:
  "\<exists>res evs. trace (snd (Run_start_attach r c (Some ct) x (out, err, inp) w))
     = trace w @ EvStartAttachCtr (Some ct) out err inp (String_flag c ''detach-keys'')
                   (Bool_flag c ''sig-proxy'') True (IsSet c ''pod'') res # evs"
proof -
  obtain res w' where run: "Run_start_attach r c (Some ct) x (out, err, inp) w = (res, w')"
    by (metis surj_pair)
  then have "\<exists>res evs. trace w'
     = trace w @ EvStartAttachCtr (Some ct) out err inp (String_flag c ''detach-keys'')
                   (Bool_flag c ''sig-proxy'') True (IsSet c ''pod'') res # evs"
    by (auto simp: Run_start_attach_def call_def emit_def Let_def
             split: prod.splits option.splits if_splits dest!: Run_wait_trace)
  with run show ?thesis by simp
qed

text \<open>
  C5, as the claim states it, fails for stdin. With \<^verbatim>\<open>--attach stdin\<close> and interactive
  unset, stdin takes part although interactive is not set; with \<^verbatim>\<open>--attach stdout\<close> and
  interactive set, stdin takes part although it is not listed.
\<close>

theorem Run_streams_stdin_listed_or_interactive:
  "\<not> Bool_flag (attach_command [''stdin''] False) ''interactive''
   \<and> Run_streams (engine0 False) (attach_command [''stdin''] False) = Inr (None, None, Some Stdin)
   \<and> StringSlice (attach_command [''stdout''] True) ''attach'' = [''stdout'']
   \<and> Run_streams (engine0 False) (attach_command [''stdout''] True)
       = Inr (Some Stdout, None, Some Stdin)"
  by (simp add: Run_streams_def is_upper_def fixture_defs)

text \<open>
  C5, amended. In a run with \<^verbatim>\<open>--attach\<close> whose names are all valid, the list replaces
  the default selection: stdout takes part exactly when it is listed, stderr exactly when
  it is listed, and stdin exactly when it is listed or interactive mode is set; names are
  compared after \<^verbatim>\<open>strings.ToLower\<close>. These are the streams that \<open>Run\<close> hands to the
  start and attach of the created container. In particular, with \<^verbatim>\<open>--attach stdout\<close> and
  interactive unset, stdin does not take part.
\<close>

theorem Run_attach_list_selection:
  assumes attach: "IsSet c ''attach'' \<or> IsSet c ''a''"
      and streams: "Run_streams r c = Inr (out, err, inp)"
  shows "(out \<noteq> None \<longleftrightarrow> (\<exists>n\<in>set (StringSlice c ''attach''). strings_ToLower n = ''stdout''))
       \<and> (err \<noteq> None \<longleftrightarrow> (\<exists>n\<in>set (StringSlice c ''attach''). strings_ToLower n = ''stderr''))
       \<and> (inp \<noteq> None \<longleftrightarrow>
            Bool_flag c ''interactive'' \<or> (\<exists>n\<in>set (StringSlice c ''attach''). strings_ToLower n = ''stdin''))
       \<and> (\<forall>w ct cfg w2 exitCode.
             Run_created r c w ct cfg w2 \<and> \<not> Detach cfg \<longrightarrow>
             (\<exists>res. trace (snd (Run r c exitCode w)) ! length (trace w2)
                      = EvStartAttachCtr (Some ct) out err inp (String_flag c ''detach-keys'')
                          (Bool_flag c ''sig-proxy'') True (IsSet c ''pod'') res))"
proof -
  from attach streams
  have loop: "Run_attach_loop r (StringSlice c ''attach'')
                (None, None, if \<not> Bool_flag c ''interactive'' then None else Some Stdin)
              = Inr (out, err, inp)"
    by (simp add: Run_streams_def Let_def split: if_splits)
  have sel: "(out \<noteq> None \<longleftrightarrow> (\<exists>n\<in>set (StringSlice c ''attach''). strings_ToLower n = ''stdout''))
       \<and> (err \<noteq> None \<longleftrightarrow> (\<exists>n\<in>set (StringSlice c ''attach''). strings_ToLower n = ''stderr''))
       \<and> (inp \<noteq> None \<longleftrightarrow>
            Bool_flag c ''interactive'' \<or> (\<exists>n\<in>set (StringSlice c ''attach''). strings_ToLower n = ''stdin''))"
    using Run_attach_loop_streams [OF loop] by (simp split: if_splits)
  have ev: "\<exists>res. trace (snd (Run r c exitCode w)) ! length (trace w2)
                      = EvStartAttachCtr (Some ct) out err inp (String_flag c ''detach-keys'')
                          (Bool_flag c ''sig-proxy'') True (IsSet c ''pod'') res"
    if created: "Run_created r c w ct cfg w2" and nd: "\<not> Detach cfg"
    for w :: "'a world" and ct cfg w2 exitCode
  proof -
    from Run_start_attach_event [of r c ct exitCode out err inp w2] obtain res evs
      where "trace (snd (Run_start_attach r c (Some ct) exitCode (out, err, inp) w2))
               = trace w2 @ EvStartAttachCtr (Some ct) out err inp (String_flag c ''detach-keys'')
                   (Bool_flag c ''sig-proxy'') True (IsSet c ''pod'') res # evs"
      by blast
    with nd streams have "trace (snd (Run r c exitCode w)) ! length (trace w2)
            = EvStartAttachCtr (Some ct) out err inp (String_flag c ''detach-keys'')
                   (Bool_flag c ''sig-proxy'') True (IsSet c ''pod'') res"
      by (simp add: Run_after_create [OF created])
    then show ?thesis by blast
  qed
  from sel ev show ?thesis by blast
qed

theorem Run_attach_list_selection_witness:
  "(IsSet (attach_command [''stdout''] False) ''attach'' \<or> IsSet (attach_command [''stdout''] False) ''a'')
   \<and> \<not> Bool_flag (attach_command [''stdout''] False) ''interactive''
   \<and> Run_streams (engine0 False) (attach_command [''stdout''] False) = Inr (Some Stdout, None, None)
   \<and> Run_created (engine0 False) (attach_command [''stdout''] False) world0 ctrA \<lparr>Detach = False\<rparr>
        \<lparr>state = (), trace = [EvCreateContainer (Some ctrA, Some \<lparr>Detach = False\<rparr>, None)]\<rparr>
   \<and> trace (snd (Run (engine0 False) (attach_command [''stdout''] False) 125 world0)) ! 1
       = EvStartAttachCtr (Some ctrA) (Some Stdout) None None [] False True False None"
proof -
  have a: "IsSet (attach_command [''stdout''] False) ''attach'' \<or> IsSet (attach_command [''stdout''] False) ''a''"
    by (simp add: fixture_defs)
  have s: "Run_streams (engine0 False) (attach_command [''stdout''] False) = Inr (Some Stdout, None, None)"
    by (simp add: Run_streams_def is_upper_def fixture_defs)
  have c: "Run_created (engine0 False) (attach_command [''stdout''] False) world0 ctrA \<lparr>Detach = False\<rparr>
        \<lparr>state = (), trace = [EvCreateContainer (Some ctrA, Some \<lparr>Detach = False\<rparr>, None)]\<rparr>"
    by (simp add: Run_created_def Run_debug_def call_def fixture_defs)
  have r: "trace (snd (Run (engine0 False) (attach_command [''stdout''] False) 125 world0)) ! 1
       = EvStartAttachCtr (Some ctrA) (Some Stdout) None None [] False True False None"
    by (simp only: Run_after_create [OF c] s)
       (simp add: Run_start_attach_def Run_wait_def Run_exit_code_def call_def fixture_defs)
  show ?thesis
    using a s c r Run_attach_list_selection [OF a s]
    by (simp add: fixture_defs)
qed








end
